theory Spec2Isabelle
  imports Main "HOL-Library.Sublist" "HOL-Library.AList"
begin

section \<open>The binwalk analyzer of AperiSolve (aperisolve/analyzers/binwalk.py)\<close>

text \<open>
  \<open>analyze_binwalk\<close> runs two external tools, looks at the file system, removes a
  directory and writes one report to the result store. All of that is made explicit here:
  the file system, the log of launched child processes and the log of \<open>update_data\<close>
  calls form the state \<open>world\<close>; what the operating system does when a child process
  is launched or a tree is removed is a parameter \<open>os\<close>; an exception of class
  \<open>Exception\<close> is the value \<open>Inl msg\<close>, where \<open>msg\<close> is \<open>str(e)\<close>.
\<close>

subsection \<open>Paths (pathlib.Path)\<close>

text \<open>A path is the list of its components; \<open>name\<close> is the last one, the empty string when
  there is none.\<close>

type_synonym path = "string list"

definition name :: "path \<Rightarrow> string" where
  "name p = (if p = [] then [] else last p)"

text \<open>\<open>p / c\<close> for a right operand \<open>c\<close> that is one relative component.\<close>

definition joinpath :: "path \<Rightarrow> string \<Rightarrow> path" where
  "joinpath p c = p @ [c]"

subsection \<open>Strings\<close>

text \<open>\<open>s.split("\n")\<close>: one piece more than there are newlines, so the empty string gives
  one empty piece.\<close>

fun split_nl :: "string \<Rightarrow> string list" where
  "split_nl [] = [[]]"
| "split_nl (c # cs) =
     (if c = CHR 0x0A then [] # split_nl cs
      else (case split_nl cs of [] \<Rightarrow> [[c]] | l # ls \<Rightarrow> (c # l) # ls))"

text \<open>\<open>"\n".join(xs)\<close>.\<close>

fun join_nl :: "string list \<Rightarrow> string" where
  "join_nl [] = []"
| "join_nl [x] = x"
| "join_nl (x # y # ys) = x @ CHR 0x0A # join_nl (y # ys)"

subsection \<open>Reports\<close>

text \<open>The values of the inner dictionary are strings or, for \<open>output\<close>, a list of strings.
  Dictionaries are association lists in insertion order.\<close>

datatype jval = JStr string | JList "string list"

type_synonym result = "(string \<times> jval) list"
type_synonym report = "(string \<times> result) list"

subsection \<open>The world and the operating system\<close>

record completed_process =
  returncode :: int
  stdout :: string
  stderr :: string

record world =
  fs :: "path set"
  calls :: "(string list \<times> path) list"
  writes :: "(path \<times> report) list"

text \<open>
  \<open>subprocess_run os argv cwd timeout files\<close> is what launching \<open>argv\<close> in \<open>cwd\<close> does to
  the existing paths \<open>files\<close>, with either the exception \<open>subprocess.run\<close> raises
  (launch failure, \<open>TimeoutExpired\<close>, a decoding error) or the completed process.
  \<open>rmtree_fault os p files\<close> is \<open>None\<close> when \<open>shutil.rmtree(p)\<close> succeeds, and the paths
  left behind with the exception's message when it raises.
  The paths in \<open>fs\<close> are those on which \<open>os.stat\<close> succeeds. On any other path \<open>os.stat\<close>
  fails, and \<open>stat_error os p files\<close> is \<open>None\<close> when the error is one that \<open>Path.exists\<close>
  takes for absence (\<open>ENOENT\<close>, \<open>ENOTDIR\<close>, \<open>EBADF\<close>, \<open>ELOOP\<close>) and the message of the
  \<open>OSError\<close> otherwise (\<open>ENAMETOOLONG\<close> for a component of more than 255 bytes, for
  example).
\<close>

record os =
  subprocess_run :: "string list \<Rightarrow> path \<Rightarrow> int \<Rightarrow> path set \<Rightarrow> path set \<times> (string + completed_process)"
  stat_error :: "path \<Rightarrow> path set \<Rightarrow> string option"
  rmtree_fault :: "path \<Rightarrow> path set \<Rightarrow> (path set \<times> string) option"

definition run :: "os \<Rightarrow> string list \<Rightarrow> path \<Rightarrow> int \<Rightarrow> world \<Rightarrow> world \<times> (string + completed_process)" where
  "run os argv dir t w =
     (case subprocess_run os argv dir t (fs w) of
        (files, r) \<Rightarrow> (w\<lparr>fs := files, calls := calls w @ [(argv, dir)]\<rparr>, r))"

text \<open>\<open>p.exists()\<close> calls \<open>os.stat\<close>: \<open>True\<close> when it succeeds, \<open>False\<close> when it fails with
  one of the four errors above, and the \<open>OSError\<close> raised again otherwise.\<close>

definition exists :: "os \<Rightarrow> path \<Rightarrow> world \<Rightarrow> string + bool" where
  "exists os p w =
     (if p \<in> fs w then Inr True
      else (case stat_error os p (fs w) of Some msg \<Rightarrow> Inl msg | None \<Rightarrow> Inr False))"

text \<open>A successful \<open>shutil.rmtree(p)\<close> removes \<open>p\<close> and everything below it.\<close>

definition rmtree :: "os \<Rightarrow> path \<Rightarrow> world \<Rightarrow> world \<times> (string + unit)" where
  "rmtree os p w =
     (case rmtree_fault os p (fs w) of
        Some (files, msg) \<Rightarrow> (w\<lparr>fs := files\<rparr>, Inl msg)
      | None \<Rightarrow> (w\<lparr>fs := {q \<in> fs w. \<not> prefix p q}\<rparr>, Inr ()))"

text \<open>
  Modelled from the spec: \<open>update_data\<close> is defined in \<open>aperisolve/analyzers/utils.py\<close>,
  which is not among the sources. The specification describes the result-store write
  \<open>update_data(workingDir, record)\<close> as an atomic, independent upsert per analyzer key
  owned by an external collaborator. It is modelled as a call that always returns and is
  recorded, with its two arguments, at the end of the log \<open>writes\<close>.
\<close>

definition update_data :: "path \<Rightarrow> report \<Rightarrow> world \<Rightarrow> world \<times> (string + unit)" where
  "update_data output_dir r w = (w\<lparr>writes := writes w @ [(output_dir, r)]\<rparr>, Inr ())"

subsection \<open>analyze_binwalk\<close>

definition binwalk_argv :: "string \<Rightarrow> string list" where
  "binwalk_argv image_name = [''binwalk'', ''-e'', ''../'' @ image_name, ''--run-as=root'']"

definition zip_argv :: "string list" where
  "zip_argv = [''7z'', ''a'', ''../binwalk.7z'', ''*'']"

text \<open>Lines 55 to 62: the list \<open>error_messages\<close>.\<close>

definition error_messages :: "string \<Rightarrow> bool \<Rightarrow> bool \<Rightarrow> string \<Rightarrow> string list" where
  "error_messages binwalk_stderr extraction_occurred zip_exist zip_stderr =
     (if binwalk_stderr \<noteq> [] \<and> \<not> extraction_occurred
      then [''Binwalk: '' @ binwalk_stderr] else []) @
     (if extraction_occurred \<and> \<not> zip_exist
      then (if zip_stderr \<noteq> [] then [''7z compression: '' @ zip_stderr]
            else [''7z compression failed with no error output''])
      else [])"

text \<open>Lines 64 to 83: the report that is written, by the \<open>update_data\<close> call of line 71
  when there are error messages and by the one of line 83 otherwise. \<open>data\<close> is a
  \<open>CompletedProcess\<close> object, which is always true as a condition, so \<open>output\<close> is
  always the split standard output.\<close>

definition report_of :: "path \<Rightarrow> completed_process \<Rightarrow> bool \<Rightarrow> bool \<Rightarrow> string \<Rightarrow> report" where
  "report_of output_dir data extraction_occurred zip_exist zip_stderr =
     (let msgs = error_messages (stderr data) extraction_occurred zip_exist zip_stderr in
      if msgs \<noteq> []
      then [(''binwalk'', [(''status'', JStr ''error''), (''error'', JStr (join_nl msgs))])]
      else
        (let output_data =
               [(''binwalk'', [(''status'', JStr ''ok''),
                               (''output'', JList (split_nl (stdout data)))])]
         in if zip_exist
            then AList.map_entry ''binwalk''
                   (AList.update ''download'' (JStr (''/download/'' @ name output_dir @ ''/binwalk'')))
                   output_data
            else output_data))"

text \<open>Lines 31 to 46: the archiving step, giving \<open>(zip_exist, zip_stderr)\<close>.\<close>

definition zip_step :: "os \<Rightarrow> int \<Rightarrow> path \<Rightarrow> bool \<Rightarrow> world \<Rightarrow> world \<times> (string + bool \<times> string)" where
  "zip_step os max_pending_time extracted_dir extraction_occurred w =
     (if extraction_occurred
      then (case run os zip_argv extracted_dir max_pending_time w of
              (w', Inl e) \<Rightarrow> (w', Inl e)
            | (w', Inr zip_data) \<Rightarrow> (w', Inr (returncode zip_data = 0, stderr zip_data)))
      else (w, Inr (False, [])))"

text \<open>Lines 48 to 50.\<close>

definition remove_extracted :: "os \<Rightarrow> path \<Rightarrow> world \<Rightarrow> world \<times> (string + unit)" where
  "remove_extracted os extracted_dir w =
     (case exists os extracted_dir w of
        Inl e \<Rightarrow> (w, Inl e)
      | Inr present \<Rightarrow> (if present then rmtree os extracted_dir w else (w, Inr ())))"

text \<open>Lines 17 to 83: the body of the \<open>try\<close> statement. An exception leaves it at once, with
  the world as it is then.\<close>

definition try_body :: "os \<Rightarrow> int \<Rightarrow> string \<Rightarrow> path \<Rightarrow> path \<Rightarrow> world \<Rightarrow> world \<times> (string + unit)" where
  "try_body os max_pending_time image_name output_dir extracted_dir w =
     (case run os (binwalk_argv image_name) output_dir max_pending_time w of
        (w1, Inl e) \<Rightarrow> (w1, Inl e)
      | (w1, Inr data) \<Rightarrow>
          (case exists os extracted_dir w1 of
             Inl e \<Rightarrow> (w1, Inl e)
           | Inr extraction_occurred \<Rightarrow>
               (case zip_step os max_pending_time extracted_dir extraction_occurred w1 of
                  (w2, Inl e) \<Rightarrow> (w2, Inl e)
                | (w2, Inr (zip_exist, zip_stderr)) \<Rightarrow>
                    (case remove_extracted os extracted_dir w2 of
                       (w3, Inl e) \<Rightarrow> (w3, Inl e)
                     | (w3, Inr u) \<Rightarrow>
                         update_data output_dir
                           (report_of output_dir data extraction_occurred zip_exist zip_stderr) w3))))"

text \<open>Line 14: the extraction directory as a function of the two arguments, for use in the
  statements below.\<close>

definition extracted_dir_of :: "path \<Rightarrow> path \<Rightarrow> path" where
  "extracted_dir_of input_img output_dir = joinpath output_dir (''_'' @ name input_img @ ''.extracted'')"

text \<open>The whole function. \<open>MAX_PENDING_TIME\<close> is imported from \<open>utils\<close> and is a
  parameter here. The result \<open>Inr ()\<close> is the return of \<open>None\<close>; \<open>Inl msg\<close> would be
  an exception reaching the caller.\<close>

definition analyze_binwalk :: "os \<Rightarrow> int \<Rightarrow> path \<Rightarrow> path \<Rightarrow> world \<Rightarrow> world \<times> (string + unit)" where
  "analyze_binwalk os max_pending_time input_img output_dir w =
     (let image_name = name input_img;
          extracted_dir = joinpath output_dir (''_'' @ image_name @ ''.extracted'')
      in case try_body os max_pending_time image_name output_dir extracted_dir w of
           (w', Inl e) \<Rightarrow>
             update_data output_dir
               [(''binwalk'', [(''status'', JStr ''error''), (''error'', JStr e)])] w'
         | (w', Inr u) \<Rightarrow> (w', Inr ()))"

text \<open>\<open>r["binwalk"].get(k)\<close> on a report.\<close>

definition binwalk_field :: "string \<Rightarrow> report \<Rightarrow> jval option" where
  "binwalk_field k r = (case map_of r ''binwalk'' of None \<Rightarrow> None | Some res \<Rightarrow> map_of res k)"

subsection \<open>Concrete scenarios\<close>

text \<open>A job directory \<open>results/d1\<close> for the image \<open>results/img.png\<close>, one level above it.\<close>

definition demo_img :: path where
  "demo_img = [''results'', ''img.png'']"

definition demo_dir :: path where
  "demo_dir = [''results'', ''d1'']"

definition demo_extracted :: path where
  "demo_extracted = [''results'', ''d1'', ''_img.png.extracted'']"

definition demo_world :: world where
  "demo_world = \<lparr>fs = {demo_img, demo_dir}, calls = [], writes = []\<rparr>"

text \<open>The paths after binwalk has extracted one file, and after 7z has written an archive.\<close>

definition demo_tree :: "path set" where
  "demo_tree = {demo_img, demo_dir, demo_extracted, demo_extracted @ [''29.zlib'']}"

definition demo_archived :: "path set" where
  "demo_archived = insert (demo_dir @ [''binwalk.7z'']) demo_tree"

text \<open>An operating system that answers the 7z command with \<open>z\<close>, any other command with
  \<open>b\<close>, and \<open>shutil.rmtree\<close> with \<open>r\<close>; \<open>os.stat\<close> fails with \<open>ENOENT\<close> on the paths that
  are not there.\<close>

definition scripted_os ::
  "path set \<times> (string + completed_process) \<Rightarrow> path set \<times> (string + completed_process) \<Rightarrow>
   (path set \<times> string) option \<Rightarrow> os" where
  "scripted_os b z r =
     \<lparr>subprocess_run = (\<lambda>argv dir t files. if argv = zip_argv then z else b),
      stat_error = (\<lambda>p files. None),
      rmtree_fault = (\<lambda>p files. r)\<rparr>"

text \<open>Binwalk extracts and returns with standard error \<open>err\<close>; 7z returns code \<open>rc\<close> with
  standard error \<open>zerr\<close>, leaving an archive file behind in either case; removal works.\<close>

definition extracting_os :: "string \<Rightarrow> int \<Rightarrow> string \<Rightarrow> os" where
  "extracting_os err rc zerr =
     scripted_os (demo_tree, Inr \<lparr>returncode = 0, stdout = ''DECIMAL'' @ [CHR 0x0A] @ ''41 Zlib'', stderr = err\<rparr>)
                 (demo_archived, Inr \<lparr>returncode = rc, stdout = [], stderr = zerr\<rparr>) None"

text \<open>Binwalk extracts nothing and returns with standard error \<open>err\<close>.\<close>

definition plain_os :: "string \<Rightarrow> os" where
  "plain_os err =
     scripted_os ({demo_img, demo_dir}, Inr \<lparr>returncode = 0, stdout = ''DECIMAL'', stderr = err\<rparr>)
                 ({demo_img, demo_dir}, Inl ''unreachable'') None"

text \<open>Binwalk extracts and returns; 7z runs into the timeout.\<close>

definition zip_timeout_os :: os where
  "zip_timeout_os =
     scripted_os (demo_tree, Inr \<lparr>returncode = 0, stdout = ''DECIMAL'', stderr = []\<rparr>)
                 (demo_tree, Inl ''Command 7z timed out after 600 seconds'') None"

text \<open>Binwalk runs into the timeout after it has created the extraction directory.\<close>

definition binwalk_timeout_os :: os where
  "binwalk_timeout_os =
     scripted_os (demo_tree, Inl ''Command binwalk timed out after 600 seconds'')
                 (demo_tree, Inl ''unreachable'') None"

text \<open>Binwalk extracts, 7z archives, and removing the tree fails half way.\<close>

definition rmtree_fails_os :: os where
  "rmtree_fails_os =
     scripted_os (demo_tree, Inr \<lparr>returncode = 0, stdout = ''DECIMAL'', stderr = []\<rparr>)
                 (demo_archived, Inr \<lparr>returncode = 0, stdout = [], stderr = []\<rparr>)
                 (Some ({demo_img, demo_dir, demo_extracted}, ''Permission denied''))"

text \<open>As \<open>extracting_os\<close>, but removing the tree fails half way.\<close>

definition stuck_tree_os :: "string \<Rightarrow> int \<Rightarrow> string \<Rightarrow> os" where
  "stuck_tree_os err rc zerr =
     scripted_os (demo_tree, Inr \<lparr>returncode = 0, stdout = ''DECIMAL'' @ [CHR 0x0A] @ ''41 Zlib'', stderr = err\<rparr>)
                 (demo_archived, Inr \<lparr>returncode = rc, stdout = [], stderr = zerr\<rparr>)
                 (Some ({demo_img, demo_dir, demo_extracted}, ''Permission denied''))"

text \<open>Binwalk extracts, 7z archives and the directory is gone afterwards; \<open>os.stat\<close> then fails
  with an input/output error.\<close>

definition vanished_tree_os :: os where
  "vanished_tree_os =
     \<lparr>subprocess_run = (\<lambda>argv dir t files.
         if argv = zip_argv
         then ({demo_img, demo_dir}, Inr \<lparr>returncode = 0, stdout = [], stderr = []\<rparr>)
         else (demo_tree, Inr \<lparr>returncode = 0, stdout = ''DECIMAL'', stderr = []\<rparr>)),
      stat_error = (\<lambda>p files. Some ''[Errno 5] Input/output error''),
      rmtree_fault = (\<lambda>p files. None)\<rparr>"

text \<open>An image whose name has 250 characters. The name of the extraction directory then has
  261, more than the 255 a file system allows: binwalk cannot create it, returns with standard
  error \<open>err\<close>, and \<open>os.stat\<close> fails on it with \<open>ENAMETOOLONG\<close>.\<close>

definition long_name :: string where
  "long_name = replicate 250 (CHR ''a'')"

definition long_img :: path where
  "long_img = [''results'', long_name]"

definition long_world :: world where
  "long_world = \<lparr>fs = {long_img, demo_dir}, calls = [], writes = []\<rparr>"

definition long_name_os :: "string \<Rightarrow> os" where
  "long_name_os err =
     \<lparr>subprocess_run = (\<lambda>argv dir t files.
         ({long_img, demo_dir}, Inr \<lparr>returncode = 0, stdout = ''DECIMAL'', stderr = err\<rparr>)),
      stat_error = (\<lambda>p files.
         if 255 < length (name p) then Some ''[Errno 36] File name too long'' else None),
      rmtree_fault = (\<lambda>p files. None)\<rparr>"

section \<open>Properties\<close>

subsection \<open>Splitting and joining lines\<close>

lemma split_nl_not_Nil: "split_nl s \<noteq> []"
  by (induction s) (auto split: list.splits)

lemma join_nl_Cons: "ls \<noteq> [] \<Longrightarrow> join_nl (l # ls) = l @ CHR 0x0A # join_nl ls"
  by (cases ls) simp_all

lemma join_nl_split_nl: "join_nl (split_nl s) = s"
proof (induction s)
  case Nil
  show ?case by simp
next
  case (Cons c cs)
  obtain l ls where e: "split_nl cs = l # ls"
    using split_nl_not_Nil [of cs] by (cases "split_nl cs") auto
  show ?case
  proof (cases "c = CHR 0x0A")
    case True
    with Cons show ?thesis by (simp add: join_nl_Cons split_nl_not_Nil)
  next
    case False
    with Cons e show ?thesis by (cases ls) auto
  qed
qed

lemma split_nl_no_newline: "l \<in> set (split_nl s) \<Longrightarrow> CHR 0x0A \<notin> set l"
proof (induction s arbitrary: l)
  case Nil
  then show ?case by simp
next
  case (Cons c cs)
  then show ?case
    by (cases "split_nl cs") (auto split: if_splits)
qed

lemma length_split_nl: "length (split_nl s) = Suc (count_list s (CHR 0x0A))"
proof (induction s)
  case Nil
  show ?case by simp
next
  case (Cons c cs)
  then show ?case
    by (cases "split_nl cs") (auto simp add: split_nl_not_Nil)
qed

lemma split_nl_line: "CHR 0x0A \<notin> set l \<Longrightarrow> split_nl (l @ CHR 0x0A # s) = l # split_nl s"
  by (induction l) auto

lemma split_nl_last_line: "CHR 0x0A \<notin> set l \<Longrightarrow> split_nl l = [l]"
  by (induction l) auto

lemma split_nl_join_nl:
  "ls \<noteq> [] \<Longrightarrow> \<forall>l\<in>set ls. CHR 0x0A \<notin> set l \<Longrightarrow> split_nl (join_nl ls) = ls"
proof (induction ls rule: join_nl.induct)
  case 1
  then show ?case by simp
next
  case (2 x)
  then show ?case by (simp add: split_nl_last_line)
next
  case (3 x y ys)
  then show ?case by (simp add: split_nl_line)
qed

subsection \<open>The outcome of each path\<close>

lemmas analyze_defs =
  analyze_binwalk_def try_body_def zip_step_def remove_extracted_def run_def exists_def
  rmtree_def update_data_def extracted_dir_of_def

lemma report_of_no_extraction_error:
  "stderr data \<noteq> [] \<Longrightarrow>
   report_of d data False False [] =
     [(''binwalk'', [(''status'', JStr ''error''), (''error'', JStr (''Binwalk: '' @ stderr data))])]"
  by (simp add: report_of_def error_messages_def)

lemma report_of_no_extraction_ok:
  "stderr data = [] \<Longrightarrow>
   report_of d data False False [] =
     [(''binwalk'', [(''status'', JStr ''ok''), (''output'', JList (split_nl (stdout data)))])]"
  by (simp add: report_of_def error_messages_def)

lemma report_of_archived:
  "report_of d data True True zs =
     [(''binwalk'', [(''status'', JStr ''ok''), (''output'', JList (split_nl (stdout data))),
                     (''download'', JStr (''/download/'' @ name d @ ''/binwalk''))])]"
  by (simp add: report_of_def error_messages_def)

lemma report_of_zip_failed:
  "report_of d data True False zs =
     [(''binwalk'', [(''status'', JStr ''error''),
        (''error'', JStr (if zs \<noteq> [] then ''7z compression: '' @ zs
                          else ''7z compression failed with no error output''))])]"
  by (simp add: report_of_def error_messages_def)

lemma analyze_binwalk_raises:
  assumes "subprocess_run os (binwalk_argv (name input_img)) output_dir t (fs w) = (f1, Inl e)"
  shows "analyze_binwalk os t input_img output_dir w =
           (w\<lparr>fs := f1, calls := calls w @ [(binwalk_argv (name input_img), output_dir)],
              writes := writes w @ [(output_dir, [(''binwalk'', [(''status'', JStr ''error''), (''error'', JStr e)])])]\<rparr>, Inr ())"
  using assms by (simp add: analyze_defs Let_def)

lemma analyze_exists_raises:
  assumes "subprocess_run os (binwalk_argv (name input_img)) output_dir t (fs w) = (f1, Inr data)"
    and "extracted_dir_of input_img output_dir \<notin> f1"
    and "stat_error os (extracted_dir_of input_img output_dir) f1 = Some e"
  shows "analyze_binwalk os t input_img output_dir w =
           (w\<lparr>fs := f1, calls := calls w @ [(binwalk_argv (name input_img), output_dir)],
              writes := writes w @ [(output_dir, [(''binwalk'', [(''status'', JStr ''error''), (''error'', JStr e)])])]\<rparr>, Inr ())"
  using assms by (simp add: analyze_defs Let_def)

lemma analyze_no_extraction:
  assumes "subprocess_run os (binwalk_argv (name input_img)) output_dir t (fs w) = (f1, Inr data)"
    and "extracted_dir_of input_img output_dir \<notin> f1"
    and "stat_error os (extracted_dir_of input_img output_dir) f1 = None"
  shows "analyze_binwalk os t input_img output_dir w =
           (w\<lparr>fs := f1, calls := calls w @ [(binwalk_argv (name input_img), output_dir)],
              writes := writes w @ [(output_dir, report_of output_dir data False False [])]\<rparr>, Inr ())"
  using assms by (simp add: analyze_defs Let_def)

lemma analyze_zip_raises:
  assumes "subprocess_run os (binwalk_argv (name input_img)) output_dir t (fs w) = (f1, Inr data)"
    and "extracted_dir_of input_img output_dir \<in> f1"
    and "subprocess_run os zip_argv (extracted_dir_of input_img output_dir) t f1 = (f2, Inl e)"
  shows "analyze_binwalk os t input_img output_dir w =
           (w\<lparr>fs := f2,
              calls := calls w @ [(binwalk_argv (name input_img), output_dir),
                                  (zip_argv, extracted_dir_of input_img output_dir)],
              writes := writes w @ [(output_dir, [(''binwalk'', [(''status'', JStr ''error''), (''error'', JStr e)])])]\<rparr>, Inr ())"
  using assms by (simp add: analyze_defs Let_def)

lemma analyze_rmtree_raises:
  assumes "subprocess_run os (binwalk_argv (name input_img)) output_dir t (fs w) = (f1, Inr data)"
    and "extracted_dir_of input_img output_dir \<in> f1"
    and "subprocess_run os zip_argv (extracted_dir_of input_img output_dir) t f1 = (f2, Inr zip_data)"
    and "extracted_dir_of input_img output_dir \<in> f2"
    and "rmtree_fault os (extracted_dir_of input_img output_dir) f2 = Some (f3, e)"
  shows "analyze_binwalk os t input_img output_dir w =
           (w\<lparr>fs := f3,
              calls := calls w @ [(binwalk_argv (name input_img), output_dir),
                                  (zip_argv, extracted_dir_of input_img output_dir)],
              writes := writes w @ [(output_dir, [(''binwalk'', [(''status'', JStr ''error''), (''error'', JStr e)])])]\<rparr>, Inr ())"
  using assms by (simp add: analyze_defs Let_def)

lemma analyze_recheck_raises:
  assumes "subprocess_run os (binwalk_argv (name input_img)) output_dir t (fs w) = (f1, Inr data)"
    and "extracted_dir_of input_img output_dir \<in> f1"
    and "subprocess_run os zip_argv (extracted_dir_of input_img output_dir) t f1 = (f2, Inr zip_data)"
    and "extracted_dir_of input_img output_dir \<notin> f2"
    and "stat_error os (extracted_dir_of input_img output_dir) f2 = Some e"
  shows "analyze_binwalk os t input_img output_dir w =
           (w\<lparr>fs := f2,
              calls := calls w @ [(binwalk_argv (name input_img), output_dir),
                                  (zip_argv, extracted_dir_of input_img output_dir)],
              writes := writes w @ [(output_dir, [(''binwalk'', [(''status'', JStr ''error''), (''error'', JStr e)])])]\<rparr>, Inr ())"
  using assms by (simp add: analyze_defs Let_def)

lemma analyze_extraction:
  assumes "subprocess_run os (binwalk_argv (name input_img)) output_dir t (fs w) = (f1, Inr data)"
    and "extracted_dir_of input_img output_dir \<in> f1"
    and "subprocess_run os zip_argv (extracted_dir_of input_img output_dir) t f1 = (f2, Inr zip_data)"
    and "extracted_dir_of input_img output_dir \<in> f2 \<longrightarrow>
           rmtree_fault os (extracted_dir_of input_img output_dir) f2 = None"
    and "extracted_dir_of input_img output_dir \<notin> f2 \<longrightarrow>
           stat_error os (extracted_dir_of input_img output_dir) f2 = None"
  shows "writes (fst (analyze_binwalk os t input_img output_dir w)) =
           writes w @ [(output_dir, report_of output_dir data True (returncode zip_data = 0) (stderr zip_data))]"
    and "calls (fst (analyze_binwalk os t input_img output_dir w)) =
           calls w @ [(binwalk_argv (name input_img), output_dir),
                      (zip_argv, extracted_dir_of input_img output_dir)]"
    and "snd (analyze_binwalk os t input_img output_dir w) = Inr ()"
    and "extracted_dir_of input_img output_dir \<notin> fs (fst (analyze_binwalk os t input_img output_dir w))"
  using assms by (auto simp add: analyze_defs Let_def)

text \<open>After 7z has returned, the removal of lines 48 to 50 either raises or lets the
  classification write its report.\<close>

lemma analyze_after_zip:
  assumes "subprocess_run os (binwalk_argv (name input_img)) output_dir t (fs w) = (f1, Inr data)"
    and "extracted_dir_of input_img output_dir \<in> f1"
    and "subprocess_run os zip_argv (extracted_dir_of input_img output_dir) t f1 = (f2, Inr zip_data)"
  shows "(\<exists>e. writes (fst (analyze_binwalk os t input_img output_dir w)) =
               writes w @ [(output_dir, [(''binwalk'', [(''status'', JStr ''error''), (''error'', JStr e)])])]) \<or>
         writes (fst (analyze_binwalk os t input_img output_dir w)) =
           writes w @ [(output_dir, report_of output_dir data True (returncode zip_data = 0) (stderr zip_data))]"
proof (cases "extracted_dir_of input_img output_dir \<in> f2")
  case True
  show ?thesis
  proof (cases "rmtree_fault os (extracted_dir_of input_img output_dir) f2")
    case None
    with assms True show ?thesis by (simp add: analyze_extraction(1))
  next
    case (Some a)
    with assms True show ?thesis by (cases a) (simp add: analyze_rmtree_raises)
  qed
next
  case False
  show ?thesis
  proof (cases "stat_error os (extracted_dir_of input_img output_dir) f2")
    case None
    with assms False show ?thesis by (simp add: analyze_extraction(1))
  next
    case (Some e)
    with assms False show ?thesis by (simp add: analyze_recheck_raises)
  qed
qed

lemmas demo_defs =
  demo_img_def demo_dir_def demo_extracted_def demo_world_def demo_tree_def demo_archived_def
  scripted_os_def extracting_os_def plain_os_def zip_timeout_os_def binwalk_timeout_os_def
  rmtree_fails_os_def stuck_tree_os_def vanished_tree_os_def binwalk_argv_def zip_argv_def
  name_def joinpath_def

lemma long_name_facts:
  "name long_img = long_name"
  "extracted_dir_of long_img demo_dir \<noteq> long_img"
  "extracted_dir_of long_img demo_dir \<noteq> demo_dir"
  "stat_error (long_name_os err) (extracted_dir_of long_img demo_dir) files =
     Some ''[Errno 36] File name too long''"
  "subprocess_run (long_name_os err) argv dir t files =
     ({long_img, demo_dir}, Inr \<lparr>returncode = 0, stdout = ''DECIMAL'', stderr = err\<rparr>)"
  "fs long_world = {long_img, demo_dir}" "writes long_world = []" "calls long_world = []"
  by (simp_all add: long_img_def long_name_def long_name_os_def long_world_def demo_dir_def
        extracted_dir_of_def name_def joinpath_def)

subsection \<open>Cleanup\<close>

text \<open>When the body of the \<open>try\<close> statement ends without an exception, the extraction
  directory is gone.\<close>

lemma extracted_dir_removed_unless_exception:
  assumes "try_body os t (name input_img) output_dir (extracted_dir_of input_img output_dir) w = (w', Inr u)"
  shows "extracted_dir_of input_img output_dir \<notin> fs w'"
  using assms
  by (auto simp add: try_body_def zip_step_def remove_extracted_def run_def exists_def rmtree_def
        update_data_def Let_def split: prod.splits sum.splits if_splits option.splits)

text \<open>
  Claim C1: on every exit path of \<open>analyze_binwalk\<close>, also when a child process runs into
  the timeout or an unexpected exception is raised, the extraction directory
  \<open>output_dir / ('_' + name + '.extracted')\<close> does not exist after the return.

  The removal in lines 48 to 50 is inside the \<open>try\<close> block and there is no \<open>finally\<close>: an
  exception raised by either \<open>subprocess.run\<close> goes to the handler in line 85, which only
  writes the error report. Below, binwalk has extracted, 7z runs into the timeout, and the
  directory is still there when the function returns.
\<close>

theorem extracted_dir_left_after_zip_timeout:
  "extracted_dir_of demo_img demo_dir = demo_extracted \<and>
   analyze_binwalk zip_timeout_os 600 demo_img demo_dir demo_world =
     (\<lparr>fs = demo_tree,
       calls = [([''binwalk'', ''-e'', ''../img.png'', ''--run-as=root''], demo_dir),
                ([''7z'', ''a'', ''../binwalk.7z'', ''*''], demo_extracted)],
       writes = [(demo_dir, [(''binwalk'', [(''status'', JStr ''error''),
                    (''error'', JStr ''Command 7z timed out after 600 seconds'')])])]\<rparr>, Inr ()) \<and>
   exists zip_timeout_os demo_extracted
     (fst (analyze_binwalk zip_timeout_os 600 demo_img demo_dir demo_world)) = Inr True"
  by (simp add: analyze_defs demo_defs Let_def)

text \<open>The same when binwalk itself runs into the timeout after creating the directory.\<close>

lemma extracted_dir_left_after_binwalk_timeout:
  "exists binwalk_timeout_os demo_extracted
     (fst (analyze_binwalk binwalk_timeout_os 600 demo_img demo_dir demo_world)) = Inr True"
  by (simp add: analyze_defs demo_defs Let_def)

subsection \<open>Exceptions and the single write\<close>

text \<open>
  Claim C2: \<open>analyze_binwalk\<close> never lets an exception reach its caller, and every call
  makes exactly one \<open>update_data\<close> write. An exception raised by the launch of binwalk, by
  the launch of 7z, by the removal of the tree or by one of the two existence checks (launch
  failure, timeout, file system error) becomes the error report carrying that exception's
  message.
\<close>

theorem no_exception_one_write:
  "snd (analyze_binwalk os t input_img output_dir w) = Inr () \<and>
   (\<exists>r. writes (fst (analyze_binwalk os t input_img output_dir w)) = writes w @ [(output_dir, r)]) \<and>
   (subprocess_run os (binwalk_argv (name input_img)) output_dir t (fs w) = (f1, Inl e) \<longrightarrow>
      writes (fst (analyze_binwalk os t input_img output_dir w)) =
        writes w @ [(output_dir, [(''binwalk'', [(''status'', JStr ''error''), (''error'', JStr e)])])]) \<and>
   (subprocess_run os (binwalk_argv (name input_img)) output_dir t (fs w) = (f1, Inr data) \<and>
    extracted_dir_of input_img output_dir \<in> f1 \<and>
    subprocess_run os zip_argv (extracted_dir_of input_img output_dir) t f1 = (f2, Inl e) \<longrightarrow>
      writes (fst (analyze_binwalk os t input_img output_dir w)) =
        writes w @ [(output_dir, [(''binwalk'', [(''status'', JStr ''error''), (''error'', JStr e)])])]) \<and>
   (subprocess_run os (binwalk_argv (name input_img)) output_dir t (fs w) = (f1, Inr data) \<and>
    extracted_dir_of input_img output_dir \<in> f1 \<and>
    subprocess_run os zip_argv (extracted_dir_of input_img output_dir) t f1 = (f2, Inr zip_data) \<and>
    extracted_dir_of input_img output_dir \<in> f2 \<and>
    rmtree_fault os (extracted_dir_of input_img output_dir) f2 = Some (f3, e) \<longrightarrow>
      writes (fst (analyze_binwalk os t input_img output_dir w)) =
        writes w @ [(output_dir, [(''binwalk'', [(''status'', JStr ''error''), (''error'', JStr e)])])]) \<and>
   (subprocess_run os (binwalk_argv (name input_img)) output_dir t (fs w) = (f1, Inr data) \<and>
    extracted_dir_of input_img output_dir \<notin> f1 \<and>
    stat_error os (extracted_dir_of input_img output_dir) f1 = Some e \<longrightarrow>
      writes (fst (analyze_binwalk os t input_img output_dir w)) =
        writes w @ [(output_dir, [(''binwalk'', [(''status'', JStr ''error''), (''error'', JStr e)])])]) \<and>
   (subprocess_run os (binwalk_argv (name input_img)) output_dir t (fs w) = (f1, Inr data) \<and>
    extracted_dir_of input_img output_dir \<in> f1 \<and>
    subprocess_run os zip_argv (extracted_dir_of input_img output_dir) t f1 = (f2, Inr zip_data) \<and>
    extracted_dir_of input_img output_dir \<notin> f2 \<and>
    stat_error os (extracted_dir_of input_img output_dir) f2 = Some e \<longrightarrow>
      writes (fst (analyze_binwalk os t input_img output_dir w)) =
        writes w @ [(output_dir, [(''binwalk'', [(''status'', JStr ''error''), (''error'', JStr e)])])])"
proof (intro conjI impI)
  show "snd (analyze_binwalk os t input_img output_dir w) = Inr ()"
    by (simp add: analyze_binwalk_def update_data_def Let_def split: prod.splits sum.splits)
next
  show "\<exists>r. writes (fst (analyze_binwalk os t input_img output_dir w)) = writes w @ [(output_dir, r)]"
    by (auto simp add: analyze_defs Let_def split: prod.splits sum.splits option.splits)
next
  assume "subprocess_run os (binwalk_argv (name input_img)) output_dir t (fs w) = (f1, Inl e)"
  then show "writes (fst (analyze_binwalk os t input_img output_dir w)) =
        writes w @ [(output_dir, [(''binwalk'', [(''status'', JStr ''error''), (''error'', JStr e)])])]"
    by (simp add: analyze_binwalk_raises)
next
  assume "subprocess_run os (binwalk_argv (name input_img)) output_dir t (fs w) = (f1, Inr data) \<and>
    extracted_dir_of input_img output_dir \<in> f1 \<and>
    subprocess_run os zip_argv (extracted_dir_of input_img output_dir) t f1 = (f2, Inl e)"
  then show "writes (fst (analyze_binwalk os t input_img output_dir w)) =
        writes w @ [(output_dir, [(''binwalk'', [(''status'', JStr ''error''), (''error'', JStr e)])])]"
    by (simp add: analyze_zip_raises)
next
  assume "subprocess_run os (binwalk_argv (name input_img)) output_dir t (fs w) = (f1, Inr data) \<and>
    extracted_dir_of input_img output_dir \<in> f1 \<and>
    subprocess_run os zip_argv (extracted_dir_of input_img output_dir) t f1 = (f2, Inr zip_data) \<and>
    extracted_dir_of input_img output_dir \<in> f2 \<and>
    rmtree_fault os (extracted_dir_of input_img output_dir) f2 = Some (f3, e)"
  then show "writes (fst (analyze_binwalk os t input_img output_dir w)) =
        writes w @ [(output_dir, [(''binwalk'', [(''status'', JStr ''error''), (''error'', JStr e)])])]"
    by (simp add: analyze_rmtree_raises)
next
  assume "subprocess_run os (binwalk_argv (name input_img)) output_dir t (fs w) = (f1, Inr data) \<and>
    extracted_dir_of input_img output_dir \<notin> f1 \<and>
    stat_error os (extracted_dir_of input_img output_dir) f1 = Some e"
  then show "writes (fst (analyze_binwalk os t input_img output_dir w)) =
        writes w @ [(output_dir, [(''binwalk'', [(''status'', JStr ''error''), (''error'', JStr e)])])]"
    by (simp add: analyze_exists_raises)
next
  assume "subprocess_run os (binwalk_argv (name input_img)) output_dir t (fs w) = (f1, Inr data) \<and>
    extracted_dir_of input_img output_dir \<in> f1 \<and>
    subprocess_run os zip_argv (extracted_dir_of input_img output_dir) t f1 = (f2, Inr zip_data) \<and>
    extracted_dir_of input_img output_dir \<notin> f2 \<and>
    stat_error os (extracted_dir_of input_img output_dir) f2 = Some e"
  then show "writes (fst (analyze_binwalk os t input_img output_dir w)) =
        writes w @ [(output_dir, [(''binwalk'', [(''status'', JStr ''error''), (''error'', JStr e)])])]"
    by (simp add: analyze_recheck_raises)
qed

text \<open>One run for each of the five places an exception can come from.\<close>

theorem no_exception_one_write_witness:
  "snd (analyze_binwalk binwalk_timeout_os 600 demo_img demo_dir demo_world) = Inr () \<and>
   writes (fst (analyze_binwalk binwalk_timeout_os 600 demo_img demo_dir demo_world)) =
     [(demo_dir, [(''binwalk'', [(''status'', JStr ''error''),
                   (''error'', JStr ''Command binwalk timed out after 600 seconds'')])])] \<and>
   snd (analyze_binwalk zip_timeout_os 600 demo_img demo_dir demo_world) = Inr () \<and>
   writes (fst (analyze_binwalk zip_timeout_os 600 demo_img demo_dir demo_world)) =
     [(demo_dir, [(''binwalk'', [(''status'', JStr ''error''),
                   (''error'', JStr ''Command 7z timed out after 600 seconds'')])])] \<and>
   snd (analyze_binwalk rmtree_fails_os 600 demo_img demo_dir demo_world) = Inr () \<and>
   writes (fst (analyze_binwalk rmtree_fails_os 600 demo_img demo_dir demo_world)) =
     [(demo_dir, [(''binwalk'', [(''status'', JStr ''error''), (''error'', JStr ''Permission denied'')])])] \<and>
   snd (analyze_binwalk (long_name_os ''bad magic'') 600 long_img demo_dir long_world) = Inr () \<and>
   writes (fst (analyze_binwalk (long_name_os ''bad magic'') 600 long_img demo_dir long_world)) =
     [(demo_dir, [(''binwalk'', [(''status'', JStr ''error''),
                   (''error'', JStr ''[Errno 36] File name too long'')])])] \<and>
   snd (analyze_binwalk vanished_tree_os 600 demo_img demo_dir demo_world) = Inr () \<and>
   writes (fst (analyze_binwalk vanished_tree_os 600 demo_img demo_dir demo_world)) =
     [(demo_dir, [(''binwalk'', [(''status'', JStr ''error''),
                   (''error'', JStr ''[Errno 5] Input/output error'')])])]"
proof -
  have b: "subprocess_run binwalk_timeout_os (binwalk_argv (name demo_img)) demo_dir 600 (fs demo_world) =
             (demo_tree, Inl ''Command binwalk timed out after 600 seconds'')"
    by (simp add: demo_defs extracted_dir_of_def)
  have z: "subprocess_run zip_timeout_os (binwalk_argv (name demo_img)) demo_dir 600 (fs demo_world) =
             (demo_tree, Inr \<lparr>returncode = 0, stdout = ''DECIMAL'', stderr = []\<rparr>) \<and>
           extracted_dir_of demo_img demo_dir \<in> demo_tree \<and>
           subprocess_run zip_timeout_os zip_argv (extracted_dir_of demo_img demo_dir) 600 demo_tree =
             (demo_tree, Inl ''Command 7z timed out after 600 seconds'')"
    by (simp add: demo_defs extracted_dir_of_def)
  have r: "subprocess_run rmtree_fails_os (binwalk_argv (name demo_img)) demo_dir 600 (fs demo_world) =
             (demo_tree, Inr \<lparr>returncode = 0, stdout = ''DECIMAL'', stderr = []\<rparr>) \<and>
           extracted_dir_of demo_img demo_dir \<in> demo_tree \<and>
           subprocess_run rmtree_fails_os zip_argv (extracted_dir_of demo_img demo_dir) 600 demo_tree =
             (demo_archived, Inr \<lparr>returncode = 0, stdout = [], stderr = []\<rparr>) \<and>
           extracted_dir_of demo_img demo_dir \<in> demo_archived \<and>
           rmtree_fault rmtree_fails_os (extracted_dir_of demo_img demo_dir) demo_archived =
             Some ({demo_img, demo_dir, demo_extracted}, ''Permission denied'')"
    by (simp add: demo_defs extracted_dir_of_def)
  have l: "subprocess_run (long_name_os ''bad magic'') (binwalk_argv (name long_img)) demo_dir 600 (fs long_world) =
             ({long_img, demo_dir}, Inr \<lparr>returncode = 0, stdout = ''DECIMAL'', stderr = ''bad magic''\<rparr>) \<and>
           extracted_dir_of long_img demo_dir \<notin> {long_img, demo_dir} \<and>
           stat_error (long_name_os ''bad magic'') (extracted_dir_of long_img demo_dir) {long_img, demo_dir} =
             Some ''[Errno 36] File name too long''"
    by (simp add: long_name_facts)
  have v: "subprocess_run vanished_tree_os (binwalk_argv (name demo_img)) demo_dir 600 (fs demo_world) =
             (demo_tree, Inr \<lparr>returncode = 0, stdout = ''DECIMAL'', stderr = []\<rparr>) \<and>
           extracted_dir_of demo_img demo_dir \<in> demo_tree \<and>
           subprocess_run vanished_tree_os zip_argv (extracted_dir_of demo_img demo_dir) 600 demo_tree =
             ({demo_img, demo_dir}, Inr \<lparr>returncode = 0, stdout = [], stderr = []\<rparr>) \<and>
           extracted_dir_of demo_img demo_dir \<notin> {demo_img, demo_dir} \<and>
           stat_error vanished_tree_os (extracted_dir_of demo_img demo_dir) {demo_img, demo_dir} =
             Some ''[Errno 5] Input/output error''"
    by (simp add: demo_defs extracted_dir_of_def)
  have 1: "snd (analyze_binwalk binwalk_timeout_os 600 demo_img demo_dir demo_world) = Inr () \<and>
     writes (fst (analyze_binwalk binwalk_timeout_os 600 demo_img demo_dir demo_world)) =
     [(demo_dir, [(''binwalk'', [(''status'', JStr ''error''),
                   (''error'', JStr ''Command binwalk timed out after 600 seconds'')])])]"
    using b no_exception_one_write [of binwalk_timeout_os 600 demo_img demo_dir demo_world
        demo_tree "''Command binwalk timed out after 600 seconds''"]
    by (simp add: demo_world_def)
  have 2: "snd (analyze_binwalk zip_timeout_os 600 demo_img demo_dir demo_world) = Inr () \<and>
     writes (fst (analyze_binwalk zip_timeout_os 600 demo_img demo_dir demo_world)) =
     [(demo_dir, [(''binwalk'', [(''status'', JStr ''error''),
                   (''error'', JStr ''Command 7z timed out after 600 seconds'')])])]"
    using z no_exception_one_write [of zip_timeout_os 600 demo_img demo_dir demo_world
        demo_tree "''Command 7z timed out after 600 seconds''"
        "\<lparr>returncode = 0, stdout = ''DECIMAL'', stderr = []\<rparr>" demo_tree]
    by (simp add: demo_world_def)
  have 3: "snd (analyze_binwalk rmtree_fails_os 600 demo_img demo_dir demo_world) = Inr () \<and>
     writes (fst (analyze_binwalk rmtree_fails_os 600 demo_img demo_dir demo_world)) =
     [(demo_dir, [(''binwalk'', [(''status'', JStr ''error''), (''error'', JStr ''Permission denied'')])])]"
    using r no_exception_one_write [of rmtree_fails_os 600 demo_img demo_dir demo_world
        demo_tree "''Permission denied''"
        "\<lparr>returncode = 0, stdout = ''DECIMAL'', stderr = []\<rparr>" demo_archived
        "\<lparr>returncode = 0, stdout = [], stderr = []\<rparr>" "{demo_img, demo_dir, demo_extracted}"]
    by (simp add: demo_world_def)
  have 4: "snd (analyze_binwalk (long_name_os ''bad magic'') 600 long_img demo_dir long_world) = Inr () \<and>
     writes (fst (analyze_binwalk (long_name_os ''bad magic'') 600 long_img demo_dir long_world)) =
     [(demo_dir, [(''binwalk'', [(''status'', JStr ''error''),
                   (''error'', JStr ''[Errno 36] File name too long'')])])]"
    using l no_exception_one_write [of "long_name_os ''bad magic''" 600 long_img demo_dir long_world
        "{long_img, demo_dir}" "''[Errno 36] File name too long''"
        "\<lparr>returncode = 0, stdout = ''DECIMAL'', stderr = ''bad magic''\<rparr>"]
    by (simp add: long_name_facts(7))
  have 5: "snd (analyze_binwalk vanished_tree_os 600 demo_img demo_dir demo_world) = Inr () \<and>
     writes (fst (analyze_binwalk vanished_tree_os 600 demo_img demo_dir demo_world)) =
     [(demo_dir, [(''binwalk'', [(''status'', JStr ''error''),
                   (''error'', JStr ''[Errno 5] Input/output error'')])])]"
    using v no_exception_one_write [of vanished_tree_os 600 demo_img demo_dir demo_world
        demo_tree "''[Errno 5] Input/output error''"
        "\<lparr>returncode = 0, stdout = ''DECIMAL'', stderr = []\<rparr>" "{demo_img, demo_dir}"
        "\<lparr>returncode = 0, stdout = [], stderr = []\<rparr>"]
    by (simp add: demo_world_def)
  from 1 2 3 4 5 show ?thesis by blast
qed

subsection \<open>Classification\<close>

text \<open>
  Claim C5: when binwalk has returned, the extraction directory does not exist and its
  standard error is not empty, the report has status \<open>error\<close> and its message is the tag
  \<open>Binwalk: \<close> followed by the standard error text, unchanged.

  This fails when the existence check of line 29 raises: for an image name of 250 characters
  the directory cannot exist, \<open>os.stat\<close> fails on its name with \<open>ENAMETOOLONG\<close>, and the report
  carries that message instead of binwalk's standard error.
\<close>

theorem long_name_stderr_counterexample:
  "subprocess_run (long_name_os ''bad magic'') (binwalk_argv (name long_img)) demo_dir 600 (fs long_world) =
     ({long_img, demo_dir}, Inr \<lparr>returncode = 0, stdout = ''DECIMAL'', stderr = ''bad magic''\<rparr>) \<and>
   extracted_dir_of long_img demo_dir \<notin> {long_img, demo_dir} \<and>
   writes (fst (analyze_binwalk (long_name_os ''bad magic'') 600 long_img demo_dir long_world)) =
     [(demo_dir, [(''binwalk'', [(''status'', JStr ''error''),
                   (''error'', JStr ''[Errno 36] File name too long'')])])] \<and>
   writes (fst (analyze_binwalk (long_name_os ''bad magic'') 600 long_img demo_dir long_world)) \<noteq>
     [(demo_dir, [(''binwalk'', [(''status'', JStr ''error''),
                   (''error'', JStr ''Binwalk: bad magic'')])])]"
  using analyze_exists_raises [of "long_name_os ''bad magic''" long_img demo_dir 600 long_world
          "{long_img, demo_dir}" "\<lparr>returncode = 0, stdout = ''DECIMAL'', stderr = ''bad magic''\<rparr>"
          "''[Errno 36] File name too long''"]
  by (simp add: long_name_facts)

text \<open>
  Claim C5, when the existence check raises nothing: binwalk has returned, the extraction
  directory does not exist, the check of line 29 answers so without an exception, and the
  standard error is not empty. Then the report has status \<open>error\<close> and its message is the tag
  \<open>Binwalk: \<close> followed by the standard error text, unchanged.
\<close>

theorem no_extraction_stderr_is_error:
  assumes "subprocess_run os (binwalk_argv (name input_img)) output_dir t (fs w) = (f1, Inr data)"
    and "extracted_dir_of input_img output_dir \<notin> f1"
    and "stat_error os (extracted_dir_of input_img output_dir) f1 = None"
    and "stderr data \<noteq> []"
  shows "writes (fst (analyze_binwalk os t input_img output_dir w)) =
           writes w @ [(output_dir, [(''binwalk'', [(''status'', JStr ''error''),
                          (''error'', JStr (''Binwalk: '' @ stderr data))])])]"
  using assms by (simp add: analyze_no_extraction report_of_no_extraction_error)

text \<open>
  Binwalk extracts nothing and complains.
\<close>

theorem no_extraction_stderr_is_error_witness:
  "subprocess_run (plain_os ''bad magic'') (binwalk_argv (name demo_img)) demo_dir 600 (fs demo_world) =
     ({demo_img, demo_dir}, Inr \<lparr>returncode = 0, stdout = ''DECIMAL'', stderr = ''bad magic''\<rparr>) \<and>
   extracted_dir_of demo_img demo_dir \<notin> {demo_img, demo_dir} \<and>
   stat_error (plain_os ''bad magic'') (extracted_dir_of demo_img demo_dir) {demo_img, demo_dir} = None \<and>
   writes (fst (analyze_binwalk (plain_os ''bad magic'') 600 demo_img demo_dir demo_world)) =
     [(demo_dir, [(''binwalk'', [(''status'', JStr ''error''), (''error'', JStr ''Binwalk: bad magic'')])])]"
  using no_extraction_stderr_is_error [of "plain_os ''bad magic''" demo_img demo_dir 600 demo_world
          "{demo_img, demo_dir}" "\<lparr>returncode = 0, stdout = ''DECIMAL'', stderr = ''bad magic''\<rparr>"]
  by (simp add: demo_defs extracted_dir_of_def)

text \<open>
  Claim C6: when binwalk has returned, the extraction directory does not exist and its
  standard error is empty, the report has status \<open>ok\<close>, its output is the standard output
  split at the newlines (one empty line for an empty output), and it has no \<open>download\<close> key.

  This fails when the existence check of line 29 raises: for the image name of 250
  characters and a silent binwalk the report has status \<open>error\<close>.
\<close>

theorem long_name_silent_counterexample:
  "subprocess_run (long_name_os []) (binwalk_argv (name long_img)) demo_dir 600 (fs long_world) =
     ({long_img, demo_dir}, Inr \<lparr>returncode = 0, stdout = ''DECIMAL'', stderr = []\<rparr>) \<and>
   extracted_dir_of long_img demo_dir \<notin> {long_img, demo_dir} \<and>
   binwalk_field ''status''
     (snd (last (writes (fst (analyze_binwalk (long_name_os []) 600 long_img demo_dir long_world))))) =
     Some (JStr ''error'') \<and>
   binwalk_field ''status''
     (snd (last (writes (fst (analyze_binwalk (long_name_os []) 600 long_img demo_dir long_world))))) \<noteq>
     Some (JStr ''ok'')"
  using analyze_exists_raises [of "long_name_os []" long_img demo_dir 600 long_world
          "{long_img, demo_dir}" "\<lparr>returncode = 0, stdout = ''DECIMAL'', stderr = []\<rparr>"
          "''[Errno 36] File name too long''"]
  by (simp add: long_name_facts binwalk_field_def)

text \<open>
  Claim C6, when the existence check raises nothing: binwalk has returned, the extraction
  directory does not exist, the check of line 29 answers so without an exception, and the
  standard error is empty. Then the report has status \<open>ok\<close>, its output is the standard
  output split at the newlines, and it has no \<open>download\<close> key.
\<close>

theorem no_extraction_no_stderr_is_ok:
  assumes "subprocess_run os (binwalk_argv (name input_img)) output_dir t (fs w) = (f1, Inr data)"
    and "extracted_dir_of input_img output_dir \<notin> f1"
    and "stat_error os (extracted_dir_of input_img output_dir) f1 = None"
    and "stderr data = []"
  shows "writes (fst (analyze_binwalk os t input_img output_dir w)) =
           writes w @ [(output_dir, [(''binwalk'', [(''status'', JStr ''ok''),
                          (''output'', JList (split_nl (stdout data)))])])] \<and>
         binwalk_field ''status'' (snd (last (writes (fst (analyze_binwalk os t input_img output_dir w))))) =
           Some (JStr ''ok'') \<and>
         binwalk_field ''download'' (snd (last (writes (fst (analyze_binwalk os t input_img output_dir w))))) =
           None"
  using assms by (simp add: analyze_no_extraction report_of_no_extraction_ok binwalk_field_def)

text \<open>
  Binwalk extracts nothing and is silent on standard error.
\<close>

theorem no_extraction_no_stderr_is_ok_witness:
  "subprocess_run (plain_os []) (binwalk_argv (name demo_img)) demo_dir 600 (fs demo_world) =
     ({demo_img, demo_dir}, Inr \<lparr>returncode = 0, stdout = ''DECIMAL'', stderr = []\<rparr>) \<and>
   extracted_dir_of demo_img demo_dir \<notin> {demo_img, demo_dir} \<and>
   stat_error (plain_os []) (extracted_dir_of demo_img demo_dir) {demo_img, demo_dir} = None \<and>
   writes (fst (analyze_binwalk (plain_os []) 600 demo_img demo_dir demo_world)) =
     [(demo_dir, [(''binwalk'', [(''status'', JStr ''ok''), (''output'', JList [''DECIMAL''])])])]"
  using no_extraction_no_stderr_is_ok [of "plain_os []" demo_img demo_dir 600 demo_world
          "{demo_img, demo_dir}" "\<lparr>returncode = 0, stdout = ''DECIMAL'', stderr = []\<rparr>"]
  by (simp add: demo_defs extracted_dir_of_def)

text \<open>
  What the operating systems \<open>extracting_os\<close> and \<open>stuck_tree_os\<close> answer in the scenario.
\<close>

lemma extracting_os_runs:
  "subprocess_run (extracting_os err rc zerr) (binwalk_argv (name demo_img)) demo_dir 600 (fs demo_world) =
     (demo_tree, Inr \<lparr>returncode = 0, stdout = ''DECIMAL'' @ [CHR 0x0A] @ ''41 Zlib'', stderr = err\<rparr>)"
  "extracted_dir_of demo_img demo_dir \<in> demo_tree"
  "extracted_dir_of demo_img demo_dir \<in> demo_archived"
  "subprocess_run (extracting_os err rc zerr) zip_argv (extracted_dir_of demo_img demo_dir) 600 demo_tree =
     (demo_archived, Inr \<lparr>returncode = rc, stdout = [], stderr = zerr\<rparr>)"
  "rmtree_fault (extracting_os err rc zerr) p = (\<lambda>files. None)"
  "stat_error (extracting_os err rc zerr) p = (\<lambda>files. None)"
  by (simp_all add: demo_defs extracted_dir_of_def)

lemma stuck_tree_os_runs:
  "subprocess_run (stuck_tree_os err rc zerr) (binwalk_argv (name demo_img)) demo_dir 600 (fs demo_world) =
     (demo_tree, Inr \<lparr>returncode = 0, stdout = ''DECIMAL'' @ [CHR 0x0A] @ ''41 Zlib'', stderr = err\<rparr>)"
  "subprocess_run (stuck_tree_os err rc zerr) zip_argv (extracted_dir_of demo_img demo_dir) 600 demo_tree =
     (demo_archived, Inr \<lparr>returncode = rc, stdout = [], stderr = zerr\<rparr>)"
  "rmtree_fault (stuck_tree_os err rc zerr) p files =
     Some ({demo_img, demo_dir, demo_extracted}, ''Permission denied'')"
  by (simp_all add: demo_defs extracted_dir_of_def)

text \<open>
  The run in which removing the tree fails, whatever binwalk and 7z have reported.
\<close>

lemma stuck_tree_report:
  "analyze_binwalk (stuck_tree_os err rc zerr) 600 demo_img demo_dir demo_world =
     (\<lparr>fs = {demo_img, demo_dir, demo_extracted},
       calls = [(binwalk_argv (name demo_img), demo_dir), (zip_argv, extracted_dir_of demo_img demo_dir)],
       writes = [(demo_dir, [(''binwalk'', [(''status'', JStr ''error''),
                    (''error'', JStr ''Permission denied'')])])]\<rparr>, Inr ())"
  using analyze_rmtree_raises [OF stuck_tree_os_runs(1) extracting_os_runs(2) stuck_tree_os_runs(2)
          extracting_os_runs(3) stuck_tree_os_runs(3), of err rc zerr]
  by (simp add: demo_world_def)

text \<open>
  Facts about the scenario, in the form the simplifier needs.
\<close>

lemma demo_world_writes: "writes demo_world = []" "calls demo_world = []"
  by (simp_all add: demo_world_def)

lemma demo_dir_name: "name demo_dir = ''d1''"
  by (simp add: demo_dir_def name_def)

text \<open>
  Claim C4: when the extraction directory exists after binwalk and 7z exits with code 0, the
  report has status \<open>ok\<close>, its output is binwalk's standard output split into lines, and
  its download reference is \<open>/download/<name of output_dir>/binwalk\<close>.

  This fails when the removal of the directory in lines 48 to 50 raises: the handler then
  writes an error report, although 7z has exited with code 0.
\<close>

theorem archived_tree_stuck_counterexample:
  "subprocess_run (stuck_tree_os [] 0 []) (binwalk_argv (name demo_img)) demo_dir 600 (fs demo_world) =
     (demo_tree, Inr \<lparr>returncode = 0, stdout = ''DECIMAL'' @ [CHR 0x0A] @ ''41 Zlib'', stderr = []\<rparr>) \<and>
   extracted_dir_of demo_img demo_dir \<in> demo_tree \<and>
   subprocess_run (stuck_tree_os [] 0 []) zip_argv (extracted_dir_of demo_img demo_dir) 600 demo_tree =
     (demo_archived, Inr \<lparr>returncode = 0, stdout = [], stderr = []\<rparr>) \<and>
   writes (fst (analyze_binwalk (stuck_tree_os [] 0 []) 600 demo_img demo_dir demo_world)) =
     [(demo_dir, [(''binwalk'', [(''status'', JStr ''error''), (''error'', JStr ''Permission denied'')])])] \<and>
   binwalk_field ''status''
     (snd (last (writes (fst (analyze_binwalk (stuck_tree_os [] 0 []) 600 demo_img demo_dir demo_world))))) \<noteq>
     Some (JStr ''ok'')"
  by (simp add: stuck_tree_report stuck_tree_os_runs extracting_os_runs binwalk_field_def)

text \<open>
  Claim C4, when the removal raises nothing: the extraction directory exists after binwalk,
  7z exits with code 0, and neither the existence check of line 49 nor \<open>shutil.rmtree\<close>
  raises. Then the report has status \<open>ok\<close>, its output is binwalk's standard output split
  into lines (joined with newlines they give the standard output back, and no line contains a
  newline), and its download reference is \<open>/download/<name of output_dir>/binwalk\<close>.
\<close>

theorem archived_is_ok_with_download:
  assumes "subprocess_run os (binwalk_argv (name input_img)) output_dir t (fs w) = (f1, Inr data)"
    and "extracted_dir_of input_img output_dir \<in> f1"
    and "subprocess_run os zip_argv (extracted_dir_of input_img output_dir) t f1 = (f2, Inr zip_data)"
    and "returncode zip_data = 0"
    and "extracted_dir_of input_img output_dir \<in> f2 \<longrightarrow>
           rmtree_fault os (extracted_dir_of input_img output_dir) f2 = None"
    and "extracted_dir_of input_img output_dir \<notin> f2 \<longrightarrow>
           stat_error os (extracted_dir_of input_img output_dir) f2 = None"
  shows "writes (fst (analyze_binwalk os t input_img output_dir w)) =
           writes w @ [(output_dir, [(''binwalk'', [(''status'', JStr ''ok''),
                          (''output'', JList (split_nl (stdout data))),
                          (''download'', JStr (''/download/'' @ name output_dir @ ''/binwalk''))])])] \<and>
         join_nl (split_nl (stdout data)) = stdout data \<and>
         (\<forall>l\<in>set (split_nl (stdout data)). CHR 0x0A \<notin> set l) \<and>
         length (split_nl (stdout data)) = Suc (count_list (stdout data) (CHR 0x0A))"
  using assms
  by (simp add: analyze_extraction(1) report_of_archived join_nl_split_nl split_nl_no_newline
        length_split_nl)

text \<open>
  Binwalk extracts, 7z archives with exit code 0, the tree is removed.
\<close>

theorem archived_is_ok_with_download_witness:
  "subprocess_run (extracting_os [] 0 []) (binwalk_argv (name demo_img)) demo_dir 600 (fs demo_world) =
     (demo_tree, Inr \<lparr>returncode = 0, stdout = ''DECIMAL'' @ [CHR 0x0A] @ ''41 Zlib'', stderr = []\<rparr>) \<and>
   extracted_dir_of demo_img demo_dir \<in> demo_tree \<and>
   subprocess_run (extracting_os [] 0 []) zip_argv (extracted_dir_of demo_img demo_dir) 600 demo_tree =
     (demo_archived, Inr \<lparr>returncode = 0, stdout = [], stderr = []\<rparr>) \<and>
   extracted_dir_of demo_img demo_dir \<in> demo_archived \<and>
   rmtree_fault (extracting_os [] 0 []) (extracted_dir_of demo_img demo_dir) demo_archived = None \<and>
   writes (fst (analyze_binwalk (extracting_os [] 0 []) 600 demo_img demo_dir demo_world)) =
     [(demo_dir, [(''binwalk'', [(''status'', JStr ''ok''), (''output'', JList [''DECIMAL'', ''41 Zlib'']),
                   (''download'', JStr ''/download/d1/binwalk'')])])] \<and>
   join_nl [''DECIMAL'', ''41 Zlib''] = ''DECIMAL'' @ [CHR 0x0A] @ ''41 Zlib''"
  using archived_is_ok_with_download [of "extracting_os [] 0 []" demo_img demo_dir 600 demo_world
          demo_tree "\<lparr>returncode = 0, stdout = ''DECIMAL'' @ [CHR 0x0A] @ ''41 Zlib'', stderr = []\<rparr>"
          demo_archived "\<lparr>returncode = 0, stdout = [], stderr = []\<rparr>"]
  by (simp add: extracting_os_runs demo_world_writes demo_dir_name)

text \<open>
  Claim C7: when the extraction directory exists after binwalk and 7z exits with a code other
  than 0 and a standard error that is not empty, the report has status \<open>error\<close> and its
  message contains the tag of 7z and that standard error text.

  This fails when the removal of the directory in lines 48 to 50 raises: the message is then
  the one of that exception, with neither the tag nor the text of 7z.
\<close>

theorem zip_failed_tree_stuck_counterexample:
  "subprocess_run (stuck_tree_os [] 2 ''Disk full'') (binwalk_argv (name demo_img)) demo_dir 600 (fs demo_world) =
     (demo_tree, Inr \<lparr>returncode = 0, stdout = ''DECIMAL'' @ [CHR 0x0A] @ ''41 Zlib'', stderr = []\<rparr>) \<and>
   extracted_dir_of demo_img demo_dir \<in> demo_tree \<and>
   subprocess_run (stuck_tree_os [] 2 ''Disk full'') zip_argv (extracted_dir_of demo_img demo_dir) 600 demo_tree =
     (demo_archived, Inr \<lparr>returncode = 2, stdout = [], stderr = ''Disk full''\<rparr>) \<and>
   writes (fst (analyze_binwalk (stuck_tree_os [] 2 ''Disk full'') 600 demo_img demo_dir demo_world)) =
     [(demo_dir, [(''binwalk'', [(''status'', JStr ''error''), (''error'', JStr ''Permission denied'')])])] \<and>
   \<not> sublist ''7z compression'' ''Permission denied'' \<and>
   \<not> sublist ''Disk full'' ''Permission denied''"
proof -
  have "\<not> sublist ''7z compression'' ''Permission denied''"
    by (simp add: sublist_Cons_right)
  moreover have "\<not> sublist ''Disk full'' ''Permission denied''"
    by (simp add: sublist_Cons_right)
  ultimately show ?thesis
    by (simp add: stuck_tree_report stuck_tree_os_runs extracting_os_runs)
qed

text \<open>
  Claim C7, when the removal raises nothing: the extraction directory exists after binwalk,
  7z exits with a code other than 0 and a standard error that is not empty, and neither the
  existence check of line 49 nor \<open>shutil.rmtree\<close> raises. Then the report has status
  \<open>error\<close> and its message is the tag \<open>7z compression: \<close> followed by that standard error.
\<close>

theorem zip_failed_with_stderr_is_error:
  assumes "subprocess_run os (binwalk_argv (name input_img)) output_dir t (fs w) = (f1, Inr data)"
    and "extracted_dir_of input_img output_dir \<in> f1"
    and "subprocess_run os zip_argv (extracted_dir_of input_img output_dir) t f1 = (f2, Inr zip_data)"
    and "returncode zip_data \<noteq> 0"
    and "stderr zip_data \<noteq> []"
    and "extracted_dir_of input_img output_dir \<in> f2 \<longrightarrow>
           rmtree_fault os (extracted_dir_of input_img output_dir) f2 = None"
    and "extracted_dir_of input_img output_dir \<notin> f2 \<longrightarrow>
           stat_error os (extracted_dir_of input_img output_dir) f2 = None"
  shows "writes (fst (analyze_binwalk os t input_img output_dir w)) =
           writes w @ [(output_dir, [(''binwalk'', [(''status'', JStr ''error''),
                          (''error'', JStr (''7z compression: '' @ stderr zip_data))])])]"
  using assms by (simp add: analyze_extraction(1) report_of_zip_failed)

text \<open>
  7z exits with code 2 and the message \<open>Disk full\<close>.
\<close>

theorem zip_failed_with_stderr_is_error_witness:
  "subprocess_run (extracting_os [] 2 ''Disk full'') (binwalk_argv (name demo_img)) demo_dir 600 (fs demo_world) =
     (demo_tree, Inr \<lparr>returncode = 0, stdout = ''DECIMAL'' @ [CHR 0x0A] @ ''41 Zlib'', stderr = []\<rparr>) \<and>
   extracted_dir_of demo_img demo_dir \<in> demo_tree \<and>
   subprocess_run (extracting_os [] 2 ''Disk full'') zip_argv (extracted_dir_of demo_img demo_dir) 600 demo_tree =
     (demo_archived, Inr \<lparr>returncode = 2, stdout = [], stderr = ''Disk full''\<rparr>) \<and>
   extracted_dir_of demo_img demo_dir \<in> demo_archived \<and>
   rmtree_fault (extracting_os [] 2 ''Disk full'') (extracted_dir_of demo_img demo_dir) demo_archived = None \<and>
   writes (fst (analyze_binwalk (extracting_os [] 2 ''Disk full'') 600 demo_img demo_dir demo_world)) =
     [(demo_dir, [(''binwalk'', [(''status'', JStr ''error''),
                   (''error'', JStr ''7z compression: Disk full'')])])]"
  using zip_failed_with_stderr_is_error [of "extracting_os [] 2 ''Disk full''" demo_img demo_dir 600 demo_world
          demo_tree "\<lparr>returncode = 0, stdout = ''DECIMAL'' @ [CHR 0x0A] @ ''41 Zlib'', stderr = []\<rparr>"
          demo_archived "\<lparr>returncode = 2, stdout = [], stderr = ''Disk full''\<rparr>"]
  by (simp add: extracting_os_runs demo_world_writes)

text \<open>
  Claim C3: when the extraction directory exists after binwalk and 7z exits with a code other
  than 0 and an empty standard error, the report has status \<open>error\<close> and its message is
  exactly the fixed string \<open>archiving failed with no error output\<close>, with no tag in front of
  an empty text.

  The status and the absence of an empty tagged text hold; the fixed string of line 62 is
  \<open>7z compression failed with no error output\<close>, which is not the string of the claim.
  First the run that shows the difference, then the statement with the string of the code.
\<close>

theorem zip_failed_silently_counterexample:
  "subprocess_run (extracting_os [] 2 []) (binwalk_argv (name demo_img)) demo_dir 600 (fs demo_world) =
     (demo_tree, Inr \<lparr>returncode = 0, stdout = ''DECIMAL'' @ [CHR 0x0A] @ ''41 Zlib'', stderr = []\<rparr>) \<and>
   extracted_dir_of demo_img demo_dir \<in> demo_tree \<and>
   subprocess_run (extracting_os [] 2 []) zip_argv (extracted_dir_of demo_img demo_dir) 600 demo_tree =
     (demo_archived, Inr \<lparr>returncode = 2, stdout = [], stderr = []\<rparr>) \<and>
   writes (fst (analyze_binwalk (extracting_os [] 2 []) 600 demo_img demo_dir demo_world)) =
     [(demo_dir, [(''binwalk'', [(''status'', JStr ''error''),
                   (''error'', JStr ''7z compression failed with no error output'')])])] \<and>
   writes (fst (analyze_binwalk (extracting_os [] 2 []) 600 demo_img demo_dir demo_world)) \<noteq>
     [(demo_dir, [(''binwalk'', [(''status'', JStr ''error''),
                   (''error'', JStr ''archiving failed with no error output'')])])]"
  by (simp add: analyze_defs demo_defs Let_def report_of_def error_messages_def)

text \<open>
  Claim C3, with the string of line 62: the report written by the classification (reached when
  neither the existence check of line 49 nor \<open>shutil.rmtree\<close> raises) has status \<open>error\<close>,
  its message is exactly \<open>7z compression failed with no error output\<close>, and it is not the tag
  \<open>7z compression: \<close> followed by the empty standard error.
\<close>

theorem zip_failed_silently_is_error:
  assumes "subprocess_run os (binwalk_argv (name input_img)) output_dir t (fs w) = (f1, Inr data)"
    and "extracted_dir_of input_img output_dir \<in> f1"
    and "subprocess_run os zip_argv (extracted_dir_of input_img output_dir) t f1 = (f2, Inr zip_data)"
    and "returncode zip_data \<noteq> 0"
    and "stderr zip_data = []"
    and "extracted_dir_of input_img output_dir \<in> f2 \<longrightarrow>
           rmtree_fault os (extracted_dir_of input_img output_dir) f2 = None"
    and "extracted_dir_of input_img output_dir \<notin> f2 \<longrightarrow>
           stat_error os (extracted_dir_of input_img output_dir) f2 = None"
  shows "writes (fst (analyze_binwalk os t input_img output_dir w)) =
           writes w @ [(output_dir, [(''binwalk'', [(''status'', JStr ''error''),
                          (''error'', JStr ''7z compression failed with no error output'')])])] \<and>
         binwalk_field ''error'' (snd (last (writes (fst (analyze_binwalk os t input_img output_dir w))))) \<noteq>
           Some (JStr (''7z compression: '' @ stderr zip_data))"
  using assms by (simp add: analyze_extraction(1) report_of_zip_failed binwalk_field_def)

text \<open>
  7z exits with code 2 and says nothing.
\<close>

theorem zip_failed_silently_is_error_witness:
  "subprocess_run (extracting_os [] 2 []) (binwalk_argv (name demo_img)) demo_dir 600 (fs demo_world) =
     (demo_tree, Inr \<lparr>returncode = 0, stdout = ''DECIMAL'' @ [CHR 0x0A] @ ''41 Zlib'', stderr = []\<rparr>) \<and>
   extracted_dir_of demo_img demo_dir \<in> demo_tree \<and>
   subprocess_run (extracting_os [] 2 []) zip_argv (extracted_dir_of demo_img demo_dir) 600 demo_tree =
     (demo_archived, Inr \<lparr>returncode = 2, stdout = [], stderr = []\<rparr>) \<and>
   extracted_dir_of demo_img demo_dir \<in> demo_archived \<and>
   rmtree_fault (extracting_os [] 2 []) (extracted_dir_of demo_img demo_dir) demo_archived = None \<and>
   binwalk_field ''error'' (snd (last (writes (fst (analyze_binwalk (extracting_os [] 2 []) 600 demo_img demo_dir demo_world))))) =
     Some (JStr ''7z compression failed with no error output'')"
  using zip_failed_silently_is_error [of "extracting_os [] 2 []" demo_img demo_dir 600 demo_world
          demo_tree "\<lparr>returncode = 0, stdout = ''DECIMAL'' @ [CHR 0x0A] @ ''41 Zlib'', stderr = []\<rparr>"
          demo_archived "\<lparr>returncode = 2, stdout = [], stderr = []\<rparr>"]
  by (simp add: extracting_os_runs demo_world_writes binwalk_field_def)

text \<open>
  Claim C8: 7z is launched if and only if the extraction directory exists after binwalk has
  returned, and only exit code 0 counts as success of the archiving: with any other exit code
  the report is an error report, whatever files 7z left behind.

  The log of launched processes grows by the binwalk command and, exactly when the directory
  exists, by the 7z command in that directory. A code other than 0 gives an error report (also
  when the removal of the tree raises), and a report with status \<open>ok\<close> after an extraction
  is possible with code 0 only.
\<close>

theorem zip_invoked_iff_extracted:
  assumes "subprocess_run os (binwalk_argv (name input_img)) output_dir t (fs w) = (f1, Inr data)"
  shows "calls (fst (analyze_binwalk os t input_img output_dir w)) =
           calls w @ (binwalk_argv (name input_img), output_dir) #
             (if extracted_dir_of input_img output_dir \<in> f1
              then [(zip_argv, extracted_dir_of input_img output_dir)] else []) \<and>
         binwalk_argv (name input_img) \<noteq> zip_argv \<and>
         (extracted_dir_of input_img output_dir \<in> f1 \<and>
          subprocess_run os zip_argv (extracted_dir_of input_img output_dir) t f1 = (f2, Inr zip_data) \<and>
          returncode zip_data \<noteq> 0 \<longrightarrow>
            (\<exists>m. writes (fst (analyze_binwalk os t input_img output_dir w)) =
                   writes w @ [(output_dir, [(''binwalk'', [(''status'', JStr ''error''), (''error'', JStr m)])])])) \<and>
         (extracted_dir_of input_img output_dir \<in> f1 \<and>
          subprocess_run os zip_argv (extracted_dir_of input_img output_dir) t f1 = (f2, Inr zip_data) \<and>
          binwalk_field ''status'' (snd (last (writes (fst (analyze_binwalk os t input_img output_dir w))))) =
            Some (JStr ''ok'') \<longrightarrow>
            returncode zip_data = 0)"
proof (intro conjI impI)
  show "calls (fst (analyze_binwalk os t input_img output_dir w)) =
           calls w @ (binwalk_argv (name input_img), output_dir) #
             (if extracted_dir_of input_img output_dir \<in> f1
              then [(zip_argv, extracted_dir_of input_img output_dir)] else [])"
    using assms
    by (auto simp add: analyze_defs Let_def split: prod.splits sum.splits option.splits)
next
  show "binwalk_argv (name input_img) \<noteq> zip_argv"
    by (simp add: binwalk_argv_def zip_argv_def)
next
  assume h: "extracted_dir_of input_img output_dir \<in> f1 \<and>
          subprocess_run os zip_argv (extracted_dir_of input_img output_dir) t f1 = (f2, Inr zip_data) \<and>
          returncode zip_data \<noteq> 0"
  with analyze_after_zip [OF assms, of f2 zip_data]
  show "\<exists>m. writes (fst (analyze_binwalk os t input_img output_dir w)) =
                   writes w @ [(output_dir, [(''binwalk'', [(''status'', JStr ''error''), (''error'', JStr m)])])]"
    by (auto simp add: report_of_zip_failed)
next
  assume h: "extracted_dir_of input_img output_dir \<in> f1 \<and>
          subprocess_run os zip_argv (extracted_dir_of input_img output_dir) t f1 = (f2, Inr zip_data) \<and>
          binwalk_field ''status'' (snd (last (writes (fst (analyze_binwalk os t input_img output_dir w))))) =
            Some (JStr ''ok'')"
  show "returncode zip_data = 0"
  proof (rule ccontr)
    assume nz: "returncode zip_data \<noteq> 0"
    with h analyze_after_zip [OF assms, of f2 zip_data]
    have "binwalk_field ''status'' (snd (last (writes (fst (analyze_binwalk os t input_img output_dir w))))) =
            Some (JStr ''error'')"
      by (auto simp add: report_of_zip_failed binwalk_field_def)
    with h show False by simp
  qed
qed

text \<open>
  With an extraction 7z is launched, its exit code 2 gives an error report although the file
  \<open>binwalk.7z\<close> was written; without an extraction only binwalk is launched; the run
  with status \<open>ok\<close> after an extraction has exit code 0.
\<close>

theorem zip_invoked_iff_extracted_witness:
  "calls (fst (analyze_binwalk (extracting_os [] 2 ''Disk full'') 600 demo_img demo_dir demo_world)) =
     [(binwalk_argv ''img.png'', demo_dir), (zip_argv, demo_extracted)] \<and>
   demo_dir @ [''binwalk.7z''] \<in> demo_archived \<and>
   (\<exists>m. writes (fst (analyze_binwalk (extracting_os [] 2 ''Disk full'') 600 demo_img demo_dir demo_world)) =
          [(demo_dir, [(''binwalk'', [(''status'', JStr ''error''), (''error'', JStr m)])])]) \<and>
   calls (fst (analyze_binwalk (plain_os []) 600 demo_img demo_dir demo_world)) =
     [(binwalk_argv ''img.png'', demo_dir)] \<and>
   binwalk_field ''status''
     (snd (last (writes (fst (analyze_binwalk (extracting_os [] 0 []) 600 demo_img demo_dir demo_world))))) =
     Some (JStr ''ok'') \<and>
   returncode \<lparr>returncode = 0, stdout = [], stderr = []\<rparr> = 0"
proof -
  have p: "subprocess_run (plain_os []) (binwalk_argv (name demo_img)) demo_dir 600 (fs demo_world) =
             ({demo_img, demo_dir}, Inr \<lparr>returncode = 0, stdout = ''DECIMAL'', stderr = []\<rparr>)"
    by (simp add: demo_defs)
  have n: "extracted_dir_of demo_img demo_dir \<notin> {demo_img, demo_dir}"
    by (simp add: demo_defs extracted_dir_of_def)
  have c: "extracted_dir_of demo_img demo_dir = demo_extracted" "name demo_img = ''img.png''"
    by (simp_all add: demo_defs extracted_dir_of_def)
  have a: "demo_dir @ [''binwalk.7z''] \<in> demo_archived"
    by (simp add: demo_archived_def)
  have x: "calls (fst (analyze_binwalk (extracting_os [] 2 ''Disk full'') 600 demo_img demo_dir demo_world)) =
             [(binwalk_argv (name demo_img), demo_dir), (zip_argv, extracted_dir_of demo_img demo_dir)] \<and>
           (\<exists>m. writes (fst (analyze_binwalk (extracting_os [] 2 ''Disk full'') 600 demo_img demo_dir demo_world)) =
                  [(demo_dir, [(''binwalk'', [(''status'', JStr ''error''), (''error'', JStr m)])])])"
    using zip_invoked_iff_extracted [OF extracting_os_runs(1), of "[]" 2 "''Disk full''" demo_archived
            "\<lparr>returncode = 2, stdout = [], stderr = ''Disk full''\<rparr>"]
    by (simp add: extracting_os_runs demo_world_writes)
  have y: "calls (fst (analyze_binwalk (plain_os []) 600 demo_img demo_dir demo_world)) =
             [(binwalk_argv (name demo_img), demo_dir)]"
    using zip_invoked_iff_extracted [OF p] n
    by (simp add: demo_world_writes)
  have k: "binwalk_field ''status''
             (snd (last (writes (fst (analyze_binwalk (extracting_os [] 0 []) 600 demo_img demo_dir demo_world))))) =
           Some (JStr ''ok'')"
    by (simp add: analyze_defs demo_defs Let_def report_of_def error_messages_def binwalk_field_def)
  have z: "returncode \<lparr>returncode = 0, stdout = [], stderr = []\<rparr> = 0"
    using zip_invoked_iff_extracted [OF extracting_os_runs(1), of "[]" 0 "[]" demo_archived
            "\<lparr>returncode = 0, stdout = [], stderr = []\<rparr>"] k
    by (simp add: extracting_os_runs)
  show ?thesis
    using x y a k z by (simp add: c)
qed

text \<open>
  Claim C9: the two conditions under which a message is appended to \<open>error_messages\<close>
  (standard error of binwalk without extraction; extraction without a successful archive)
  exclude each other, so an error report written by the classification carries exactly one
  message, and the join with newlines never puts two messages together.
\<close>

theorem one_error_message:
  "\<not> ((stderr data \<noteq> [] \<and> \<not> extraction_occurred) \<and> (extraction_occurred \<and> \<not> zip_exist)) \<and>
   length (error_messages (stderr data) extraction_occurred zip_exist zip_stderr) \<le> 1 \<and>
   (error_messages (stderr data) extraction_occurred zip_exist zip_stderr \<noteq> [] \<longrightarrow>
      (\<exists>m. error_messages (stderr data) extraction_occurred zip_exist zip_stderr = [m] \<and>
           m \<in> {''Binwalk: '' @ stderr data, ''7z compression: '' @ zip_stderr,
                 ''7z compression failed with no error output''} \<and>
           report_of output_dir data extraction_occurred zip_exist zip_stderr =
             [(''binwalk'', [(''status'', JStr ''error''), (''error'', JStr m)])]))"
  by (auto simp add: error_messages_def report_of_def)

text \<open>
  The error report for a binwalk failure.
\<close>

theorem one_error_message_witness:
  "error_messages ''bad magic'' False False [] \<noteq> [] \<and>
   report_of demo_dir \<lparr>returncode = 0, stdout = ''DECIMAL'', stderr = ''bad magic''\<rparr> False False [] =
     [(''binwalk'', [(''status'', JStr ''error''), (''error'', JStr ''Binwalk: bad magic'')])]"
  using one_error_message [of "\<lparr>returncode = 0, stdout = ''DECIMAL'', stderr = ''bad magic''\<rparr>"
          False False "[]" demo_dir]
  by (auto simp add: error_messages_def)

text \<open>
  Claim C10: when the extraction directory exists after binwalk has returned, the standard
  error of binwalk does not contribute to the report: the outcome depends on the archiving
  step only, and a successful archive gives status \<open>ok\<close> also when binwalk wrote to its
  standard error.

  The last part fails when the removal of the directory in lines 48 to 50 raises: binwalk
  warns on standard error, 7z exits with code 0, and the report is an error report.
\<close>

theorem warned_tree_stuck_counterexample:
  "subprocess_run (stuck_tree_os ''WARNING: symlink skipped'' 0 []) (binwalk_argv (name demo_img))
     demo_dir 600 (fs demo_world) =
     (demo_tree, Inr \<lparr>returncode = 0, stdout = ''DECIMAL'' @ [CHR 0x0A] @ ''41 Zlib'',
                     stderr = ''WARNING: symlink skipped''\<rparr>) \<and>
   extracted_dir_of demo_img demo_dir \<in> demo_tree \<and>
   subprocess_run (stuck_tree_os ''WARNING: symlink skipped'' 0 []) zip_argv
     (extracted_dir_of demo_img demo_dir) 600 demo_tree =
     (demo_archived, Inr \<lparr>returncode = 0, stdout = [], stderr = []\<rparr>) \<and>
   binwalk_field ''status''
     (snd (last (writes (fst (analyze_binwalk (stuck_tree_os ''WARNING: symlink skipped'' 0 []) 600
                               demo_img demo_dir demo_world))))) =
     Some (JStr ''error'') \<and>
   binwalk_field ''status''
     (snd (last (writes (fst (analyze_binwalk (stuck_tree_os ''WARNING: symlink skipped'' 0 []) 600
                               demo_img demo_dir demo_world))))) \<noteq>
     Some (JStr ''ok'')"
  by (simp add: stuck_tree_report stuck_tree_os_runs extracting_os_runs binwalk_field_def)

text \<open>
  Claim C10, with the last part for a removal that raises nothing: when the extraction
  directory exists after binwalk has returned, the standard error of binwalk does not
  contribute to the report. Two operating systems that differ only in the standard error
  \<open>s\<close> binwalk returns give the same outcome of \<open>analyze_binwalk\<close>, whatever 7z and the
  removal do; and when 7z exits with code 0 and neither the existence check of line 49 nor
  \<open>shutil.rmtree\<close> raises, that outcome is the \<open>ok\<close> report with the download reference.
\<close>

theorem binwalk_stderr_ignored_after_extraction:
  assumes "subprocess_run os (binwalk_argv (name input_img)) output_dir t (fs w) = (f1, Inr data)"
    and "subprocess_run os' (binwalk_argv (name input_img)) output_dir t (fs w) =
           (f1, Inr (data\<lparr>stderr := s\<rparr>))"
    and "extracted_dir_of input_img output_dir \<in> f1"
    and "subprocess_run os' zip_argv (extracted_dir_of input_img output_dir) t f1 =
           subprocess_run os zip_argv (extracted_dir_of input_img output_dir) t f1"
    and "rmtree_fault os' (extracted_dir_of input_img output_dir) =
           rmtree_fault os (extracted_dir_of input_img output_dir)"
    and "stat_error os' (extracted_dir_of input_img output_dir) =
           stat_error os (extracted_dir_of input_img output_dir)"
  shows "analyze_binwalk os' t input_img output_dir w = analyze_binwalk os t input_img output_dir w \<and>
         (subprocess_run os zip_argv (extracted_dir_of input_img output_dir) t f1 = (f2, Inr zip_data) \<and>
          returncode zip_data = 0 \<and>
          (extracted_dir_of input_img output_dir \<in> f2 \<longrightarrow>
             rmtree_fault os (extracted_dir_of input_img output_dir) f2 = None) \<and>
          (extracted_dir_of input_img output_dir \<notin> f2 \<longrightarrow>
             stat_error os (extracted_dir_of input_img output_dir) f2 = None) \<longrightarrow>
            writes (fst (analyze_binwalk os' t input_img output_dir w)) =
              writes w @ [(output_dir, [(''binwalk'', [(''status'', JStr ''ok''),
                             (''output'', JList (split_nl (stdout data))),
                             (''download'', JStr (''/download/'' @ name output_dir @ ''/binwalk''))])])])"
proof (intro conjI impI)
  have r: "report_of output_dir (data\<lparr>stderr := s\<rparr>) True ze zs = report_of output_dir data True ze zs"
    for ze zs
    by (simp add: report_of_def error_messages_def)
  show e: "analyze_binwalk os' t input_img output_dir w = analyze_binwalk os t input_img output_dir w"
    using assms
    by (auto simp add: analyze_defs Let_def r split: prod.splits sum.splits option.splits)
  assume "subprocess_run os zip_argv (extracted_dir_of input_img output_dir) t f1 = (f2, Inr zip_data) \<and>
          returncode zip_data = 0 \<and>
          (extracted_dir_of input_img output_dir \<in> f2 \<longrightarrow>
             rmtree_fault os (extracted_dir_of input_img output_dir) f2 = None) \<and>
          (extracted_dir_of input_img output_dir \<notin> f2 \<longrightarrow>
             stat_error os (extracted_dir_of input_img output_dir) f2 = None)"
  with assms(1,3) show "writes (fst (analyze_binwalk os' t input_img output_dir w)) =
              writes w @ [(output_dir, [(''binwalk'', [(''status'', JStr ''ok''),
                             (''output'', JList (split_nl (stdout data))),
                             (''download'', JStr (''/download/'' @ name output_dir @ ''/binwalk''))])])]"
    by (simp add: e analyze_extraction(1) report_of_archived)
qed

text \<open>
  Binwalk extracts and warns on standard error; the outcome is that of the silent run.
\<close>

theorem binwalk_stderr_ignored_after_extraction_witness:
  "analyze_binwalk (extracting_os ''WARNING: symlink skipped'' 0 []) 600 demo_img demo_dir demo_world =
     analyze_binwalk (extracting_os [] 0 []) 600 demo_img demo_dir demo_world \<and>
   writes (fst (analyze_binwalk (extracting_os ''WARNING: symlink skipped'' 0 []) 600 demo_img demo_dir demo_world)) =
     [(demo_dir, [(''binwalk'', [(''status'', JStr ''ok''), (''output'', JList [''DECIMAL'', ''41 Zlib'']),
                   (''download'', JStr ''/download/d1/binwalk'')])])]"
proof -
  let ?ed = "extracted_dir_of demo_img demo_dir"
  let ?data = "\<lparr>returncode = 0, stdout = ''DECIMAL'' @ [CHR 0x0A] @ ''41 Zlib'', stderr = []\<rparr>"
  have b: "subprocess_run (extracting_os [] 0 []) (binwalk_argv (name demo_img)) demo_dir 600 (fs demo_world) =
             (demo_tree, Inr ?data)"
    by (simp add: extracting_os_runs)
  have b': "subprocess_run (extracting_os ''WARNING: symlink skipped'' 0 []) (binwalk_argv (name demo_img))
              demo_dir 600 (fs demo_world) =
             (demo_tree, Inr (?data\<lparr>stderr := ''WARNING: symlink skipped''\<rparr>))"
    by (simp add: extracting_os_runs)
  have z: "subprocess_run (extracting_os ''WARNING: symlink skipped'' 0 []) zip_argv ?ed 600 demo_tree =
           subprocess_run (extracting_os [] 0 []) zip_argv ?ed 600 demo_tree"
    by (simp add: extracting_os_runs)
  have r: "rmtree_fault (extracting_os ''WARNING: symlink skipped'' 0 []) ?ed =
           rmtree_fault (extracting_os [] 0 []) ?ed"
    by (simp add: extracting_os_runs)
  have x: "stat_error (extracting_os ''WARNING: symlink skipped'' 0 []) ?ed =
           stat_error (extracting_os [] 0 []) ?ed"
    by (simp add: extracting_os_runs)
  have a: "subprocess_run (extracting_os [] 0 []) zip_argv ?ed 600 demo_tree =
             (demo_archived, Inr \<lparr>returncode = 0, stdout = [], stderr = []\<rparr>) \<and>
           returncode \<lparr>returncode = 0, stdout = [], stderr = []\<rparr> = 0 \<and>
           (?ed \<in> demo_archived \<longrightarrow> rmtree_fault (extracting_os [] 0 []) ?ed demo_archived = None) \<and>
           (?ed \<notin> demo_archived \<longrightarrow> stat_error (extracting_os [] 0 []) ?ed demo_archived = None)"
    by (simp add: extracting_os_runs)
  note t = binwalk_stderr_ignored_after_extraction [OF b b' extracting_os_runs(2) z r x,
             of demo_archived "\<lparr>returncode = 0, stdout = [], stderr = []\<rparr>"]
  have e: "analyze_binwalk (extracting_os ''WARNING: symlink skipped'' 0 []) 600 demo_img demo_dir demo_world =
           analyze_binwalk (extracting_os [] 0 []) 600 demo_img demo_dir demo_world"
    using t by (rule conjunct1)
  have "writes (fst (analyze_binwalk (extracting_os ''WARNING: symlink skipped'' 0 []) 600 demo_img demo_dir demo_world)) =
          writes demo_world @ [(demo_dir, [(''binwalk'', [(''status'', JStr ''ok''),
             (''output'', JList (split_nl (stdout ?data))),
             (''download'', JStr (''/download/'' @ name demo_dir @ ''/binwalk''))])])]"
    using t [THEN conjunct2] a by blast
  then have "writes (fst (analyze_binwalk (extracting_os ''WARNING: symlink skipped'' 0 []) 600 demo_img demo_dir demo_world)) =
          [(demo_dir, [(''binwalk'', [(''status'', JStr ''ok''), (''output'', JList [''DECIMAL'', ''41 Zlib'']),
                   (''download'', JStr ''/download/d1/binwalk'')])])]"
    by (simp add: demo_world_writes demo_dir_name)
  with e show ?thesis by (rule conjI)
qed

end
